theory Spec2Isabelle
  imports Complex_Main
begin

section \<open>Privacy policy analyzer: numbers, dictionaries and errors\<close>

text \<open>
  The development embeds \<^verbatim>\<open>src/privacy/privacy_policy_analyzer.py\<close>.

  Numbers. Python's \<^verbatim>\<open>float\<close> values are modelled as exact real numbers
  (\<^typ>\<open>real\<close>): the arithmetic of the scoring functions (\<^verbatim>\<open>/\<close>, \<^verbatim>\<open>*\<close>, \<^verbatim>\<open>+\<close>,
  \<^verbatim>\<open>-\<close>, \<^verbatim>\<open>min\<close>, \<^verbatim>\<open>max\<close>) is taken without the representation error of binary
  floating point, and without infinities or NaN. Where that error decides a result,
  in \<^verbatim>\<open>round\<close> at a value halfway between two neighbours, the model leaves the
  result open between the two. Counts and lengths, which Python obtains from
  \<^verbatim>\<open>len\<close> and \<^verbatim>\<open>str.count\<close>, are natural numbers.

  Strings. A Python \<^verbatim>\<open>str\<close> is modelled as a \<^typ>\<open>string\<close> whose characters are the
  code points below 256; \<^verbatim>\<open>len\<close> is \<^const>\<open>length\<close>.
\<close>

subsection \<open>The built-in \<^verbatim>\<open>round(x, ndigits)\<close>\<close>

text \<open>
  Python rounds to the nearest multiple of \<open>10\<^sup>-\<^sup>n\<close>. It does so on the binary
  float: when the exact value lies halfway between two multiples, the float standing
  for it is the midpoint itself, or lies just below or just above it, and the result is
  the even neighbour, the lower or the upper one accordingly. Exact reals do not tell
  these cases apart, so the choice at a midpoint is a parameter: a \<open>tie_rule\<close> says, for
  a scaled value at a midpoint, whether the upper neighbour is returned. Away from
  midpoints the rule plays no part. \<open>half_even\<close> is the rule of the floats that are
  midpoints themselves, \<open>lower_neighbour\<close> and \<open>upper_neighbour\<close> those of the floats
  just below and just above.
\<close>

type_synonym tie_rule = "real \<Rightarrow> bool"

definition round_nearest :: "tie_rule \<Rightarrow> real \<Rightarrow> int" where
  "round_nearest up y =
     (let f = \<lfloor>y\<rfloor>; d = y - of_int f
      in if d < 1 / 2 then f
         else if 1 / 2 < d then f + 1
         else if up y then f + 1 else f)"

definition half_even :: tie_rule where
  "half_even y = odd \<lfloor>y\<rfloor>"

definition lower_neighbour :: tie_rule where
  "lower_neighbour y = False"

definition upper_neighbour :: tie_rule where
  "upper_neighbour y = True"

definition py_round :: "tie_rule \<Rightarrow> real \<Rightarrow> nat \<Rightarrow> real" where
  "py_round up x ndigits = of_int (round_nearest up (x * 10 ^ ndigits)) / 10 ^ ndigits"

subsection \<open>Exceptions and dictionaries\<close>

text \<open>
  \<open>KeyError\<close> is raised by the subscription of a dictionary; \<open>ExternalError\<close> stands
  for any exception raised inside a library call, with its text.
\<close>

datatype error =
    KeyError string
  | ExternalError string

text \<open>
  A \<^verbatim>\<open>dict\<close> with string keys and numeric values, in insertion order. Subscription
  \<^verbatim>\<open>d[k]\<close> raises \<^verbatim>\<open>KeyError\<close> on a missing key.
\<close>

type_synonym metrics = "(string \<times> real) list"

definition getitem :: "metrics \<Rightarrow> string \<Rightarrow> error + real" where
  "getitem d k = (case map_of d k of None \<Rightarrow> Inl (KeyError k) | Some v \<Rightarrow> Inr v)"

section \<open>Score normalisation\<close>

subsection \<open>\<^verbatim>\<open>calculate_read_score\<close>\<close>

text \<open>
  The argument is \<^verbatim>\<open>None\<close> or a dictionary; \<^verbatim>\<open>not metrics\<close> holds for \<^verbatim>\<open>None\<close> and
  for the empty dictionary. The three subscriptions are evaluated in the order of the
  source, each raising \<^verbatim>\<open>KeyError\<close> when its key is missing.
\<close>

definition calculate_read_score :: "tie_rule \<Rightarrow> metrics option \<Rightarrow> error + real" where
  "calculate_read_score up metrics =
     (case metrics of
        None \<Rightarrow> Inr 0
      | Some d \<Rightarrow>
          (if d = [] then Inr 0
           else
             (case getitem d ''flesch_reading_ease'' of
                Inl e \<Rightarrow> Inl e
              | Inr fre \<Rightarrow>
                  (let flesch_normalized = max 0 (min 100 fre) / 100 in
                   (case getitem d ''flesch_kincaid_grade'' of
                      Inl e \<Rightarrow> Inl e
                    | Inr grade_level \<Rightarrow>
                        (let grade_normalized = max 0 (1 - min grade_level 20 / 20) in
                         (case getitem d ''text_standard'' of
                            Inl e \<Rightarrow> Inl e
                          | Inr text_std \<Rightarrow>
                              (let text_std_normalized = max 0 (1 - min text_std 20 / 20);
                                   read_score =
                                     (flesch_normalized + grade_normalized
                                        + text_std_normalized) / 3
                               in Inr (py_round up read_score 3)))))))))"

subsection \<open>\<^verbatim>\<open>calculate_third_score\<close>\<close>

text \<open>
  The local variable \<^verbatim>\<open>mentions_per_1000\<close> and the three-branch curve applied to it
  are named, so that properties of the score can be stated in terms of the density.
\<close>

definition mentions_per_1000 :: "nat \<Rightarrow> nat \<Rightarrow> real" where
  "mentions_per_1000 third_party_count text_length =
     (let words = of_nat text_length / 5
      in if 0 < words then (of_nat third_party_count / words) * 1000 else 0)"

definition third_curve :: "real \<Rightarrow> real" where
  "third_curve m =
     (if m < 5 then m / 5
      else if m \<le> 15 then 1
      else max (1 / 2) (1 - (m - 15) / 20))"

definition calculate_third_score :: "tie_rule \<Rightarrow> nat \<Rightarrow> nat \<Rightarrow> real" where
  "calculate_third_score up third_party_count text_length =
     (if text_length = 0 then 0
      else py_round up (third_curve (mentions_per_1000 third_party_count text_length)) 3)"

subsection \<open>\<^verbatim>\<open>calculate_p6_score\<close>\<close>

definition calculate_p6_score :: "tie_rule \<Rightarrow> real \<Rightarrow> real \<Rightarrow> real" where
  "calculate_p6_score up read_score third_score =
     (let p6_score = (1 / 2) * read_score + (1 / 2) * third_score
      in py_round up p6_score 3)"

section \<open>Text processing\<close>

subsection \<open>String primitives\<close>

text \<open>
  White space as \<^verbatim>\<open>str.split()\<close> and the pattern \<^verbatim>\<open>\s\<close> see it, on code points below
  256: tab to carriage return, the four separators 28 to 31, the space, NEL and the
  no-break space.
\<close>

definition is_space :: "char \<Rightarrow> bool" where
  "is_space c =
     (let n = (of_char c :: nat)
      in (9 \<le> n \<and> n \<le> 13) \<or> (28 \<le> n \<and> n \<le> 32) \<or> n = 133 \<or> n = 160)"

text \<open>\<^verbatim>\<open>str.lower()\<close> on code points below 256: the letters A to Z and the accented
  capitals 192 to 222, the multiplication sign 215 apart, move up by 32.\<close>

definition lower_char :: "char \<Rightarrow> char" where
  "lower_char c =
     (let n = (of_char c :: nat)
      in if (65 \<le> n \<and> n \<le> 90) \<or> (192 \<le> n \<and> n \<le> 222 \<and> n \<noteq> 215)
         then char_of (n + 32) else c)"

definition lower :: "string \<Rightarrow> string" where
  "lower s = map lower_char s"

fun startswith :: "string \<Rightarrow> string \<Rightarrow> bool" where
  "startswith s [] = True"
| "startswith [] (p # ps) = False"
| "startswith (c # cs) (p # ps) = (c = p \<and> startswith cs ps)"

text \<open>
  \<^verbatim>\<open>s.count(sub)\<close>: the number of non-overlapping occurrences of \<^verbatim>\<open>sub\<close>, found from
  left to right; after a match the scan resumes behind it. For the empty \<^verbatim>\<open>sub\<close>
  Python answers \<^verbatim>\<open>len(s) + 1\<close>.
\<close>

function count_str :: "string \<Rightarrow> string \<Rightarrow> nat" where
  "count_str s sub =
     (if sub = [] then length s + 1
      else if s = [] then 0
      else if startswith s sub then 1 + count_str (drop (length sub) s) sub
      else count_str (tl s) sub)"
  by pat_completeness auto
termination
  by (relation "measure (\<lambda>(s, sub). length s)") (auto simp: neq_Nil_conv)

declare count_str.simps [simp del]

text \<open>
  \<^verbatim>\<open>s.split()\<close>: the maximal runs of characters that are not white space.
  \<open>split_from cur s\<close> carries the word begun so far.
\<close>

fun split_from :: "string \<Rightarrow> string \<Rightarrow> string list" where
  "split_from cur [] = (if cur = [] then [] else [cur])"
| "split_from cur (c # cs) =
     (if is_space c then (if cur = [] then split_from [] cs else cur # split_from [] cs)
      else split_from (cur @ [c]) cs)"

definition split :: "string \<Rightarrow> string list" where
  "split s = split_from [] s"

text \<open>
  \<^verbatim>\<open>re.sub(r'\s+', ' ', text)\<close>: every maximal run of white space becomes one space.
  The flag tells whether the previous character belonged to a run already replaced.
\<close>

fun collapse_from :: "bool \<Rightarrow> string \<Rightarrow> string" where
  "collapse_from in_run [] = []"
| "collapse_from in_run (c # cs) =
     (if is_space c then (if in_run then collapse_from True cs
                          else CHR '' '' # collapse_from True cs)
      else c # collapse_from False cs)"

definition collapse_whitespace :: "string \<Rightarrow> string" where
  "collapse_whitespace text = collapse_from False text"

subsection \<open>\<^verbatim>\<open>analyze_readability\<close>\<close>

text \<open>
  The ten functions of the \<^verbatim>\<open>textstat\<close> library are not part of the repository;
  they are parameters of the model. A call returns a number (\<open>Inr\<close>) or raises an
  exception (\<open>Inl\<close>, with its text).
\<close>

record textstat =
  flesch_reading_ease :: "string \<Rightarrow> string + real"
  flesch_kincaid_grade :: "string \<Rightarrow> string + real"
  gunning_fog :: "string \<Rightarrow> string + real"
  smog_index :: "string \<Rightarrow> string + real"
  coleman_liau_index :: "string \<Rightarrow> string + real"
  automated_readability_index :: "string \<Rightarrow> string + real"
  dale_chall_readability_score :: "string \<Rightarrow> string + real"
  difficult_words :: "string \<Rightarrow> string + nat"
  linsear_write_formula :: "string \<Rightarrow> string + real"
  text_standard :: "string \<Rightarrow> string + real"

text \<open>A library call inside an expression: its exception ends the evaluation, its
  value is passed on.\<close>

definition call :: "string + 'a \<Rightarrow> ('a \<Rightarrow> error + 'b) \<Rightarrow> error + 'b" where
  "call r f = (case r of Inl msg \<Rightarrow> Inl (ExternalError msg) | Inr v \<Rightarrow> f v)"

text \<open>
  The function has no \<^verbatim>\<open>try\<close>: the ten calls are made in the order of the dictionary
  display, and the first exception leaves the function.
\<close>

definition analyze_readability :: "textstat \<Rightarrow> string option \<Rightarrow> error + metrics option" where
  "analyze_readability ts text =
     (case text of
        None \<Rightarrow> Inr None
      | Some t \<Rightarrow>
          if t = [] \<or> length t < 100 then Inr None
          else
            call (flesch_reading_ease ts t) (\<lambda>v1.
            call (flesch_kincaid_grade ts t) (\<lambda>v2.
            call (gunning_fog ts t) (\<lambda>v3.
            call (smog_index ts t) (\<lambda>v4.
            call (coleman_liau_index ts t) (\<lambda>v5.
            call (automated_readability_index ts t) (\<lambda>v6.
            call (dale_chall_readability_score ts t) (\<lambda>v7.
            call (difficult_words ts t) (\<lambda>v8.
            call (linsear_write_formula ts t) (\<lambda>v9.
            call (text_standard ts t) (\<lambda>v10.
            Inr (Some
              [(''flesch_reading_ease'', v1),
               (''flesch_kincaid_grade'', v2),
               (''gunning_fog'', v3),
               (''smog_index'', v4),
               (''coleman_liau_index'', v5),
               (''automated_readability_index'', v6),
               (''dale_chall_readability_score'', v7),
               (''difficult_words'', of_nat v8),
               (''linsear_write_formula'', v9),
               (''text_standard'', v10)]))))))))))))"

subsection \<open>\<^verbatim>\<open>analyze_third_party_mentions\<close>\<close>

text \<open>The local list \<^verbatim>\<open>keywords\<close> of the source.\<close>

definition third_party_keywords :: "string list" where
  "third_party_keywords =
     [''third party'', ''third-party'', ''partners'', ''affiliates'',
      ''share with'', ''disclose to'', ''sell'', ''transfer'',
      ''advertisers'', ''service providers'', ''vendors'']"

definition analyze_third_party_mentions :: "string option \<Rightarrow> nat" where
  "analyze_third_party_mentions text =
     (case text of
        None \<Rightarrow> 0
      | Some t \<Rightarrow>
          if t = [] then 0
          else let text_lower = lower t
               in sum_list (map (\<lambda>keyword. count_str text_lower keyword) third_party_keywords))"

section \<open>The analysis pipeline\<close>

subsection \<open>Results, output and the outside world\<close>

text \<open>The dictionary \<^verbatim>\<open>result\<close> built by \<^verbatim>\<open>analyze_platform\<close>, with its thirteen keys.\<close>

record result =
  Platform :: string
  URL :: string
  Analysis_Date :: string
  Word_Count :: nat
  Character_Count :: nat
  Flesch_Reading_Ease :: real
  Flesch_Kincaid_Grade :: real
  Gunning_Fog :: real
  Text_Standard :: real
  Third_Party_Mentions :: nat
  READ_Score :: real
  THIRD_Score :: real
  P6_Score :: real

text \<open>
  What the program emits, in order: one event for each \<^verbatim>\<open>print\<close> call and each file
  written. A line of fixed text is \<open>Say\<close> with that text (pictographs left out, the
  formula of the last lines written in ASCII); a
  formatted line carries the values it shows. The pandas tables that
  \<^verbatim>\<open>generate_report\<close> prints for a non-empty result list are one event, \<open>Report\<close>.
\<close>

datatype event =
    Say string
  | ErrorFetching string string
  | Analyzing string
  | UrlLine string
  | FailedExtract string
  | Extracted nat nat
  | FleschLine real
  | GradeLine real
  | TextStandardLine real
  | MentionsLine nat
  | ReadScoreLine real
  | ThirdScoreLine real
  | P6ScoreLine real
  | Report "result list"
  | WriteCsv string "result list"
  | WriteJson string "result list"
  | SavedTo string

text \<open>
  A computation that prints and may raise: its outcome (\<open>Inl\<close> an exception that
  escapes, \<open>Inr\<close> the returned value) and the events emitted until then.
\<close>

type_synonym 'a io = "(error + 'a) \<times> event list"

definition return :: "'a \<Rightarrow> 'a io" where
  "return x = (Inr x, [])"

definition say :: "event list \<Rightarrow> unit io" where
  "say evs = (Inr (), evs)"

definition lift :: "error + 'a \<Rightarrow> 'a io" where
  "lift r = (r, [])"

definition then_do :: "'a io \<Rightarrow> ('a \<Rightarrow> 'b io) \<Rightarrow> 'b io" where
  "then_do m f =
     (case m of
        (Inl e, evs) \<Rightarrow> (Inl e, evs)
      | (Inr x, evs) \<Rightarrow> (case f x of (r, evs') \<Rightarrow> (r, evs @ evs')))"

text \<open>
  The parts of the run that lie outside the repository:
  \<^item> \<open>http_get url\<close>: \<^verbatim>\<open>requests.get\<close> followed by \<^verbatim>\<open>raise_for_status\<close>; \<open>Inl\<close> is the
    text of the exception raised, \<open>Inr\<close> the content of the response;
  \<^item> \<open>soup_get_text content\<close>: parsing with BeautifulSoup, removing the \<^verbatim>\<open>script\<close>,
    \<^verbatim>\<open>style\<close>, \<^verbatim>\<open>nav\<close>, \<^verbatim>\<open>footer\<close> and \<^verbatim>\<open>header\<close> elements, and
    \<^verbatim>\<open>get_text(separator=' ', strip=True)\<close>;
  \<^item> \<open>stat\<close>: the textstat library;
  \<^item> \<open>ties\<close>: how \<^verbatim>\<open>round\<close> falls at a midpoint;
  \<^item> \<open>now platform\<close>: the formatted reading of the clock taken while that platform is
    analysed.
\<close>

record world =
  http_get :: "string \<Rightarrow> string + string"
  soup_get_text :: "string \<Rightarrow> string + string"
  stat :: textstat
  ties :: tie_rule
  now :: "string \<Rightarrow> string"

definition rule_line :: "char \<Rightarrow> string" where
  "rule_line c = replicate 60 c"

subsection \<open>\<^verbatim>\<open>extract_text_from_url\<close>\<close>

text \<open>Every exception raised inside the \<^verbatim>\<open>try\<close> block is caught, printed and turned
  into \<^verbatim>\<open>None\<close>.\<close>

definition extract_text_from_url :: "world \<Rightarrow> string \<Rightarrow> string option io" where
  "extract_text_from_url w url =
     (case http_get w url of
        Inl e \<Rightarrow> then_do (say [ErrorFetching url e]) (\<lambda>_. return None)
      | Inr content \<Rightarrow>
          (case soup_get_text w content of
             Inl e \<Rightarrow> then_do (say [ErrorFetching url e]) (\<lambda>_. return None)
           | Inr text \<Rightarrow> return (Some (collapse_whitespace text))))"

subsection \<open>\<^verbatim>\<open>analyze_platform\<close>\<close>

text \<open>
  The only \<^verbatim>\<open>try\<close> of the pipeline is the one inside \<^verbatim>\<open>extract_text_from_url\<close>. An
  exception raised by \<^verbatim>\<open>analyze_readability\<close>, or by a subscription, leaves
  \<^verbatim>\<open>analyze_platform\<close> after the lines printed so far.
\<close>

definition analyze_platform :: "world \<Rightarrow> string \<Rightarrow> string \<Rightarrow> result option io" where
  "analyze_platform w platform_name url =
     then_do (say [Say (CHR 0x0A # rule_line CHR ''=''), Analyzing platform_name,
                   UrlLine url, Say (rule_line CHR ''='')]) (\<lambda>_.
     then_do (extract_text_from_url w url) (\<lambda>text.
     (case text of
        None \<Rightarrow> then_do (say [FailedExtract platform_name]) (\<lambda>_. return None)
      | Some t \<Rightarrow>
          (if t = [] then then_do (say [FailedExtract platform_name]) (\<lambda>_. return None)
           else
             (let text_length = length t;
                  word_count = length (split t)
              in
              then_do (say [Extracted word_count text_length]) (\<lambda>_.
              then_do (lift (analyze_readability (stat w) (Some t))) (\<lambda>readability.
              (case readability of
                 None \<Rightarrow> then_do (say [Say ''Failed to analyze readability'']) (\<lambda>_. return None)
               | Some metrics \<Rightarrow>
                   (if metrics = []
                    then then_do (say [Say ''Failed to analyze readability'']) (\<lambda>_. return None)
                    else
                      then_do (lift (getitem metrics ''flesch_reading_ease'')) (\<lambda>fre.
                      then_do (say [FleschLine fre]) (\<lambda>_.
                      then_do (lift (getitem metrics ''flesch_kincaid_grade'')) (\<lambda>fk.
                      then_do (say [GradeLine fk]) (\<lambda>_.
                      then_do (lift (getitem metrics ''text_standard'')) (\<lambda>ts.
                      then_do (say [TextStandardLine ts]) (\<lambda>_.
                      (let third_party_count = analyze_third_party_mentions (Some t)
                       in
                       then_do (say [MentionsLine third_party_count]) (\<lambda>_.
                       then_do (lift (calculate_read_score (ties w) (Some metrics))) (\<lambda>read_score.
                       (let third_score = calculate_third_score (ties w) third_party_count text_length;
                            p6_score = calculate_p6_score (ties w) read_score third_score
                        in
                        then_do (say [Say (CHR 0x0A # ''SCORES:''), ReadScoreLine read_score,
                                      ThirdScoreLine third_score, P6ScoreLine p6_score]) (\<lambda>_.
                        then_do (lift (getitem metrics ''flesch_reading_ease'')) (\<lambda>fre'.
                        then_do (lift (getitem metrics ''flesch_kincaid_grade'')) (\<lambda>fk'.
                        then_do (lift (getitem metrics ''gunning_fog'')) (\<lambda>gf.
                        then_do (lift (getitem metrics ''text_standard'')) (\<lambda>ts'.
                        return (Some
                          \<lparr>Platform = platform_name,
                           URL = url,
                           Analysis_Date = now w platform_name,
                           Word_Count = word_count,
                           Character_Count = text_length,
                           Flesch_Reading_Ease = py_round (ties w) fre' 2,
                           Flesch_Kincaid_Grade = py_round (ties w) fk' 2,
                           Gunning_Fog = py_round (ties w) gf 2,
                           Text_Standard = py_round (ties w) ts' 2,
                           Third_Party_Mentions = third_party_count,
                           READ_Score = read_score,
                           THIRD_Score = third_score,
                           P6_Score = p6_score\<rparr>)))))))))))))))))))))))))"

subsection \<open>The analyzer object and \<^verbatim>\<open>analyze_all\<close>\<close>

text \<open>
  The two attributes of \<^verbatim>\<open>PrivacyPolicyAnalyzer\<close>. \<^verbatim>\<open>policies\<close> is a dictionary
  iterated in insertion order, hence a list of pairs; \<^verbatim>\<open>results\<close> is the list the
  methods append to and read.
\<close>

record analyzer =
  policies :: "(string \<times> string) list"
  results :: "result list"

definition analyzer_init :: analyzer where
  "analyzer_init =
     \<lparr>policies =
        [(''Meta'', ''https://www.facebook.com/privacy/policy/''),
         (''Google'', ''https://policies.google.com/privacy''),
         (''Microsoft'', ''https://privacy.microsoft.com/en-us/privacystatement''),
         (''Proton'', ''https://proton.me/legal/privacy'')],
      results = []\<rparr>"

text \<open>
  The \<^verbatim>\<open>for\<close> loop of \<^verbatim>\<open>analyze_all\<close> over the remaining policies, threading the
  list \<^verbatim>\<open>self.results\<close>. An exception escaping \<^verbatim>\<open>analyze_platform\<close> ends the loop
  and leaves the list as it was at that moment.
\<close>

fun analyze_loop :: "world \<Rightarrow> (string \<times> string) list \<Rightarrow> result list \<Rightarrow> unit io \<times> result list" where
  "analyze_loop w [] rs = (return (), rs)"
| "analyze_loop w ((platform, url) # rest) rs =
     (case analyze_platform w platform url of
        (Inl e, evs) \<Rightarrow> ((Inl e, evs), rs)
      | (Inr r, evs) \<Rightarrow>
          (let rs' = (case r of None \<Rightarrow> rs | Some x \<Rightarrow> rs @ [x])
           in (case analyze_loop w rest rs' of
                 ((out, evs'), rs'') \<Rightarrow> ((out, evs @ evs'), rs''))))"

definition analyze_all :: "world \<Rightarrow> analyzer \<Rightarrow> result list io \<times> analyzer" where
  "analyze_all w a =
     (case analyze_loop w (policies a) (results a) of
        ((out, evs), rs) \<Rightarrow>
          (((case out of Inl e \<Rightarrow> Inl e | Inr _ \<Rightarrow> Inr rs),
            [Say (CHR 0x0A # rule_line CHR ''=''),
             Say ''PRIVACY POLICY TRANSPARENCY ANALYSIS'',
             Say (rule_line CHR ''='')] @ evs),
           a\<lparr>results := rs\<rparr>))"

subsection \<open>\<^verbatim>\<open>generate_report\<close>, \<^verbatim>\<open>save_results\<close> and \<^verbatim>\<open>main\<close>\<close>

definition generate_report :: "analyzer \<Rightarrow> result list option io" where
  "generate_report a =
     (if results a = [] then then_do (say [Say ''No results to report'']) (\<lambda>_. return None)
      else then_do (say [Report (results a)]) (\<lambda>_. return (Some (results a))))"

text \<open>\<^verbatim>\<open>s.replace(old, new)\<close>: every non-overlapping occurrence, from left to right.\<close>

function replace_str :: "string \<Rightarrow> string \<Rightarrow> string \<Rightarrow> string" where
  "replace_str s old new =
     (if old = [] then new @ concat (map (\<lambda>c. c # new) s)
      else if s = [] then []
      else if startswith s old then new @ replace_str (drop (length old) s) old new
      else hd s # replace_str (tl s) old new)"
  by pat_completeness auto
termination
  by (relation "measure (\<lambda>(s, old, new). length s)") (auto simp: neq_Nil_conv)

declare replace_str.simps [simp del]

definition save_results :: "analyzer \<Rightarrow> string \<Rightarrow> unit io" where
  "save_results a filename =
     (if results a = [] then say [Say ''No results to save'']
      else
        then_do (say [WriteCsv filename (results a), SavedTo filename]) (\<lambda>_.
        (let json_filename = replace_str filename ''.csv'' ''.json''
         in say [WriteJson json_filename (results a), SavedTo json_filename])))"

text \<open>\<^verbatim>\<open>main\<close> returns nothing; its model gives the outcome with the events, and the
  analyzer object as the run leaves it.\<close>

definition main :: "world \<Rightarrow> unit io \<times> analyzer" where
  "main w =
     (case analyze_all w analyzer_init of
        ((out, evs), a) \<Rightarrow>
          (then_do (out, evs) (\<lambda>_.
           then_do (generate_report a) (\<lambda>df.
           then_do (save_results a ''privacy_policy_analysis.csv'') (\<lambda>_.
           say [Say (CHR 0x0A # rule_line CHR ''=''),
                Say ''ANALYSIS COMPLETE'',
                Say (rule_line CHR ''=''),
                Say (CHR 0x0A # ''Use these P6 scores in your PBDIS calculation:''),
                Say ''PBDIS(S) = SUM_i=1..7 w_i * P_i(S)'',
                Say ''where P6 is now quantified for each platform.'']))),
           a))"

section \<open>Outcomes of a document\<close>

text \<open>
  Readings of a run, used to state its properties: the text that
  \<^verbatim>\<open>extract_text_from_url\<close> hands back for an address (\<^verbatim>\<open>None\<close> when fetching or
  parsing raised), the entries a document contributes to the result list, and the
  three ways in which a document contributes none: its text is not fetched, its text is
  shorter than 100 characters, or the textstat library raises on its text.
\<close>

definition fetched :: "world \<Rightarrow> string \<Rightarrow> string option" where
  "fetched w url = (case fst (extract_text_from_url w url) of Inl e \<Rightarrow> None | Inr text \<Rightarrow> text)"

definition produced :: "world \<Rightarrow> string \<times> string \<Rightarrow> result list" where
  "produced w doc =
     (case fst (analyze_platform w (fst doc) (snd doc)) of
        Inr (Some r) \<Rightarrow> [r]
      | _ \<Rightarrow> [])"

definition fetch_failed :: "world \<Rightarrow> string \<times> string \<Rightarrow> bool" where
  "fetch_failed w doc = (fetched w (snd doc) = None)"

definition too_short :: "world \<Rightarrow> string \<times> string \<Rightarrow> bool" where
  "too_short w doc = (case fetched w (snd doc) of None \<Rightarrow> False | Some t \<Rightarrow> length t < 100)"

definition stat_raises :: "world \<Rightarrow> string \<times> string \<Rightarrow> bool" where
  "stat_raises w doc =
     (case fetched w (snd doc) of
        None \<Rightarrow> False
      | Some t \<Rightarrow> isl (analyze_readability (stat w) (Some t)))"

text \<open>The documents that \<^verbatim>\<open>analyze_all\<close> gets through: those before the first one on
  which the library raises.\<close>

definition completed :: "world \<Rightarrow> (string \<times> string) list \<Rightarrow> (string \<times> string) list" where
  "completed w docs = takeWhile (\<lambda>doc. \<not> stat_raises w doc) docs"

text \<open>The ten keys of a metrics dictionary, in the order of insertion.\<close>

definition metric_names :: "string list" where
  "metric_names =
     [''flesch_reading_ease'', ''flesch_kincaid_grade'', ''gunning_fog'', ''smog_index'',
      ''coleman_liau_index'', ''automated_readability_index'',
      ''dale_chall_readability_score'', ''difficult_words'', ''linsear_write_formula'',
      ''text_standard'']"

text \<open>The six lines that end \<^verbatim>\<open>main\<close>.\<close>

definition closing_lines :: "event list" where
  "closing_lines =
     [Say (CHR 0x0A # rule_line CHR ''=''),
      Say ''ANALYSIS COMPLETE'',
      Say (rule_line CHR ''=''),
      Say (CHR 0x0A # ''Use these P6 scores in your PBDIS calculation:''),
      Say ''PBDIS(S) = SUM_i=1..7 w_i * P_i(S)'',
      Say ''where P6 is now quantified for each platform.'']"

section \<open>Concrete inputs\<close>

text \<open>
  The metrics of a text made of very short sentences of one-syllable words: the
  reading ease exceeds 100 and the grade-level estimates are negative.
\<close>

definition simple_text_metrics :: metrics where
  "simple_text_metrics =
     [(''flesch_reading_ease'', 12122 / 100),
      (''flesch_kincaid_grade'', - 34 / 10),
      (''gunning_fog'', 4 / 10),
      (''smog_index'', 0),
      (''coleman_liau_index'', - 5),
      (''automated_readability_index'', - 6),
      (''dale_chall_readability_score'', 1 / 10),
      (''difficult_words'', 0),
      (''linsear_write_formula'', 1),
      (''text_standard'', - 2)]"

text \<open>A textstat library that reports the same statistics for every text.\<close>

definition flat_stat :: textstat where
  "flat_stat =
     \<lparr>flesch_reading_ease = (\<lambda>t. Inr (452 / 10)),
      flesch_kincaid_grade = (\<lambda>t. Inr (123 / 10)),
      gunning_fog = (\<lambda>t. Inr (141 / 10)),
      smog_index = (\<lambda>t. Inr (135 / 10)),
      coleman_liau_index = (\<lambda>t. Inr (128 / 10)),
      automated_readability_index = (\<lambda>t. Inr (139 / 10)),
      dale_chall_readability_score = (\<lambda>t. Inr (91 / 10)),
      difficult_words = (\<lambda>t. Inr 120),
      linsear_write_formula = (\<lambda>t. Inr 15),
      text_standard = (\<lambda>t. Inr 13)\<rparr>"

text \<open>A textstat library whose first function raises on every text.\<close>

definition crashing_stat :: textstat where
  "crashing_stat =
     flat_stat\<lparr>flesch_reading_ease := (\<lambda>t. Inl ''ZeroDivisionError: division by zero'')\<rparr>"

text \<open>A text of exactly 1000 words, ten of them the keyword \<^verbatim>\<open>sell\<close>: 990 times the
  word \<^verbatim>\<open>a\<close>, then ten times \<^verbatim>\<open>sell\<close>, separated by single spaces.\<close>

definition thousand_words :: string where
  "thousand_words = concat (replicate 990 ''a '') @ concat (replicate 9 ''sell '') @ ''sell''"

text \<open>A text of exactly 1000 words and exactly 5000 characters, ten of the words the
  keyword \<^verbatim>\<open>sell\<close>.\<close>

definition five_thousand_chars :: string where
  "five_thousand_chars =
     ''quiet '' @ concat (replicate 989 ''word '') @ concat (replicate 9 ''sell '') @ ''sell''"

text \<open>
  Six worlds: every request times out; every page is blank; every page holds the two
  letters \<^verbatim>\<open>hi\<close>; every page is the plain text \<open>thousand_words\<close>; every page is
  the plain text \<open>five_thousand_chars\<close>; the last again, with the library that raises.
\<close>

definition dead_world :: world where
  "dead_world =
     \<lparr>http_get = (\<lambda>url. Inl ''Connection timed out''),
      soup_get_text = (\<lambda>content. Inr content),
      stat = flat_stat,
      ties = half_even,
      now = (\<lambda>platform. ''2025-01-01 12:00:00'')\<rparr>"

definition blank_world :: world where
  "blank_world =
     \<lparr>http_get = (\<lambda>url. Inr ''   ''),
      soup_get_text = (\<lambda>content. Inr []),
      stat = flat_stat,
      ties = half_even,
      now = (\<lambda>platform. ''2025-01-01 12:00:00'')\<rparr>"

definition short_world :: world where
  "short_world =
     \<lparr>http_get = (\<lambda>url. Inr ''<p>hi</p>''),
      soup_get_text = (\<lambda>content. Inr ''hi''),
      stat = flat_stat,
      ties = half_even,
      now = (\<lambda>platform. ''2025-01-01 12:00:00'')\<rparr>"

definition thousand_world :: world where
  "thousand_world =
     \<lparr>http_get = (\<lambda>url. Inr thousand_words),
      soup_get_text = (\<lambda>content. Inr content),
      stat = flat_stat,
      ties = half_even,
      now = (\<lambda>platform. ''2025-01-01 12:00:00'')\<rparr>"

definition five_thousand_world :: world where
  "five_thousand_world =
     \<lparr>http_get = (\<lambda>url. Inr five_thousand_chars),
      soup_get_text = (\<lambda>content. Inr content),
      stat = flat_stat,
      ties = half_even,
      now = (\<lambda>platform. ''2025-01-01 12:00:00'')\<rparr>"

definition crashing_world :: world where
  "crashing_world = five_thousand_world\<lparr>stat := crashing_stat\<rparr>"

section \<open>Rounding\<close>

lemma round_nearest_cases: "round_nearest up y = \<lfloor>y\<rfloor> \<or> round_nearest up y = \<lfloor>y\<rfloor> + 1"
  by (simp add: round_nearest_def Let_def)

lemma round_nearest_of_int: "round_nearest up (of_int k) = k"
  by (simp add: round_nearest_def)

lemma round_nearest_mono:
  assumes "x \<le> y"
  shows "round_nearest up x \<le> round_nearest up y"
proof (cases "x = y")
  case True
  then show ?thesis by simp
next
  case False
  with assms have less: "x < y" by simp
  show ?thesis
  proof (cases "\<lfloor>x\<rfloor> = \<lfloor>y\<rfloor>")
    case True
    with less show ?thesis
      by (auto simp: round_nearest_def Let_def)
  next
    case False
    with assms have "\<lfloor>x\<rfloor> + 1 \<le> \<lfloor>y\<rfloor>"
      using floor_mono [of x y] by linarith
    with round_nearest_cases [of up x] round_nearest_cases [of up y] show ?thesis by linarith
  qed
qed

lemma round_nearest_near: "\<bar>of_int (round_nearest up y) - y\<bar> \<le> 1 / 2"
proof -
  define f where "f = \<lfloor>y\<rfloor>"
  have "of_int f \<le> y" "y < of_int f + 1"
    unfolding f_def by linarith+
  then show ?thesis
    unfolding round_nearest_def Let_def f_def [symmetric]
    by (auto simp: abs_if)
qed

lemma py_round_mono: "x \<le> y \<Longrightarrow> py_round up x n \<le> py_round up y n"
  unfolding py_round_def
  by (intro divide_right_mono round_nearest_mono mult_right_mono iffD2 [OF of_int_le_iff]) simp_all

lemma py_round_grid: "py_round up (of_int k / 10 ^ n) n = of_int k / 10 ^ n"
  by (simp add: py_round_def round_nearest_of_int)

lemma py_round_on_grid: "\<exists>k::int. py_round up x 3 = of_int k / 1000"
  by (auto simp: py_round_def)

lemma py_round_near: "\<bar>py_round up x n - x\<bar> \<le> 1 / (2 * 10 ^ n)"
proof -
  have "\<bar>py_round up x n - x\<bar> = \<bar>of_int (round_nearest up (x * 10 ^ n)) - x * 10 ^ n\<bar> / 10 ^ n"
    by (simp add: py_round_def field_simps flip: abs_mult)
  also have "\<dots> \<le> (1 / 2) / 10 ^ n"
    by (intro divide_right_mono round_nearest_near) simp
  finally show ?thesis by simp
qed

lemma py_round_0: "py_round up 0 n = 0"
  using py_round_grid [of up 0 n] by simp

lemma py_round_1: "py_round up 1 n = 1"
  using py_round_grid [of up "10 ^ n" n] by simp

lemma py_round_half: "py_round up (1 / 2) 3 = 1 / 2"
  using py_round_grid [of up 500 3] by simp

lemma py_round_unit: "0 \<le> x \<Longrightarrow> x \<le> 1 \<Longrightarrow> 0 \<le> py_round up x n \<and> py_round up x n \<le> 1"
  using py_round_mono [of 0 x up n] py_round_mono [of x 1 up n]
  by (simp add: py_round_0 py_round_1)

section \<open>Bounds of the scores\<close>

text \<open>
  The disclosure score and, for sub-scores in the unit interval, the combined score stay
  in the unit interval. The readability score does so when both grade-level estimates
  are non-negative.
\<close>

lemma mentions_nonneg: "0 \<le> mentions_per_1000 c n"
  by (simp add: mentions_per_1000_def Let_def)

lemma third_curve_unit: "0 \<le> m \<Longrightarrow> 0 \<le> third_curve m \<and> third_curve m \<le> 1"
  by (auto simp: third_curve_def max_def)

lemma third_score_unit:
  "0 \<le> calculate_third_score up c n \<and> calculate_third_score up c n \<le> 1"
  using py_round_unit [OF third_curve_unit [OF mentions_nonneg, THEN conjunct1]
      third_curve_unit [OF mentions_nonneg, THEN conjunct2]]
  by (simp add: calculate_third_score_def)

lemma p6_score_unit:
  assumes "0 \<le> r" "r \<le> 1" "0 \<le> t" "t \<le> 1"
  shows "0 \<le> calculate_p6_score up r t \<and> calculate_p6_score up r t \<le> 1"
  unfolding calculate_p6_score_def Let_def
  using assms by (intro py_round_unit) simp_all

lemma read_score_unit:
  assumes "getitem d ''flesch_kincaid_grade'' = Inr g" "0 \<le> g"
    and "getitem d ''text_standard'' = Inr s" "0 \<le> s"
    and "calculate_read_score up (Some d) = Inr r"
  shows "0 \<le> r \<and> r \<le> 1"
proof -
  have "d \<noteq> []" using assms(1) by (auto simp: getitem_def)
  with assms obtain e where e: "getitem d ''flesch_reading_ease'' = Inr e"
    by (auto simp: calculate_read_score_def split: sum.splits)
  let ?x = "(max 0 (min 100 e) / 100 + max 0 (1 - min g 20 / 20) + max 0 (1 - min s 20 / 20)) / 3"
  have r: "r = py_round up ?x 3"
    using assms e \<open>d \<noteq> []\<close> by (simp add: calculate_read_score_def)
  have "0 \<le> ?x" by simp
  moreover have "?x \<le> 1" using assms(2,4) by (simp add: min_def max_def)
  ultimately show ?thesis unfolding r by (rule py_round_unit)
qed

text \<open>
  C1. The claim is that every sub-score and the combined score lie in the unit interval
  for all metric values, negative grade levels included. The readability score caps
  each grade-level estimate at 20 but not at 0 from below, so a negative estimate
  contributes more than 1: for the metrics above the readability score is 1.09, and
  combined with a disclosure score of 1 the final score is 1.045, whatever the rule
  for ties.
\<close>

theorem read_score_above_one:
  "calculate_read_score up (Some simple_text_metrics) = Inr (109 / 100)
   \<and> calculate_p6_score up (109 / 100) 1 = 1045 / 1000"
  by (simp add: simple_text_metrics_def calculate_read_score_def getitem_def
      calculate_p6_score_def py_round_def round_nearest_def)

section \<open>The disclosure score as a function of the density\<close>

lemma third_curve_low_mono: "d \<le> d' \<Longrightarrow> d' < 5 \<Longrightarrow> third_curve d \<le> third_curve d'"
  by (simp add: third_curve_def)

lemma third_curve_high_mono: "15 < d \<Longrightarrow> d \<le> d' \<Longrightarrow> third_curve d' \<le> third_curve d"
  by (auto simp: third_curve_def max_def)

lemma third_curve_floor: "15 < d \<Longrightarrow> 1 / 2 \<le> third_curve d"
  by (simp add: third_curve_def)

lemmas eval_third = calculate_third_score_def py_round_def round_nearest_def
  mentions_per_1000_def third_curve_def Let_def

text \<open>
  C2, as the claim states it, fails: the score is rounded to three decimals, so below a
  density of 5 it is not strictly increasing and differs from a fifth of the density.
  One mention in 10001 characters and one in 10000 characters have different
  densities, both below 5, and the same score. Neither value is at a midpoint, so the
  rule for ties plays no part.
\<close>

theorem third_score_rounding_counterexample:
  "mentions_per_1000 1 10001 < mentions_per_1000 1 10000
   \<and> mentions_per_1000 1 10000 < 5
   \<and> calculate_third_score half_even 1 10001 = calculate_third_score half_even 1 10000
   \<and> calculate_third_score half_even 1 10001 \<noteq> mentions_per_1000 1 10001 / 5"
  by (simp add: eval_third)

text \<open>
  C2, amended. For a text of non-zero length with density \<open>d\<close>: the score is exactly 1
  when \<open>5 \<le> d \<le> 15\<close>; below 5 it is \<open>d / 5\<close> rounded to three decimals, that is, a
  multiple of 0.001 at most 0.0005 away from \<open>d / 5\<close>, and non-decreasing in the
  density; above 15 it is \<open>max(0.5, 1 - (d - 15) / 20)\<close> rounded to three decimals in
  the same sense, non-increasing in the density and never below 0.5.
\<close>

theorem third_score_by_density:
  assumes "0 < n" and "0 < n'"
  shows "(5 \<le> mentions_per_1000 c n \<and> mentions_per_1000 c n \<le> 15
            \<longrightarrow> calculate_third_score up c n = 1)
       \<and> (mentions_per_1000 c n < 5
            \<longrightarrow> (\<exists>k::int. calculate_third_score up c n = of_int k / 1000)
              \<and> \<bar>calculate_third_score up c n - mentions_per_1000 c n / 5\<bar> \<le> 1 / 2000)
       \<and> (15 < mentions_per_1000 c n
            \<longrightarrow> (\<exists>k::int. calculate_third_score up c n = of_int k / 1000)
              \<and> \<bar>calculate_third_score up c n
                  - max (1 / 2) (1 - (mentions_per_1000 c n - 15) / 20)\<bar> \<le> 1 / 2000
              \<and> 1 / 2 \<le> calculate_third_score up c n)
       \<and> (mentions_per_1000 c n \<le> mentions_per_1000 c' n' \<and> mentions_per_1000 c' n' < 5
            \<longrightarrow> calculate_third_score up c n \<le> calculate_third_score up c' n')
       \<and> (15 < mentions_per_1000 c n \<and> mentions_per_1000 c n \<le> mentions_per_1000 c' n'
            \<longrightarrow> calculate_third_score up c' n' \<le> calculate_third_score up c n)"
proof -
  let ?d = "mentions_per_1000 c n" and ?d' = "mentions_per_1000 c' n'"
  let ?s = "calculate_third_score up c n" and ?s' = "calculate_third_score up c' n'"
  have s: "?s = py_round up (third_curve ?d) 3"
    and s': "?s' = py_round up (third_curve ?d') 3"
    using assms by (simp_all add: calculate_third_score_def)
  have grid: "\<exists>k::int. ?s = of_int k / 1000"
    unfolding s by (rule py_round_on_grid)
  have near: "\<bar>?s - third_curve ?d\<bar> \<le> 1 / 2000"
    unfolding s using py_round_near [of up "third_curve ?d" 3] by simp
  have band: "5 \<le> ?d \<and> ?d \<le> 15 \<longrightarrow> ?s = 1"
    by (simp add: s third_curve_def py_round_1)
  have low: "?d < 5 \<longrightarrow> (\<exists>k::int. ?s = of_int k / 1000) \<and> \<bar>?s - ?d / 5\<bar> \<le> 1 / 2000"
  proof
    assume "?d < 5"
    then have "third_curve ?d = ?d / 5"
      by (simp add: third_curve_def)
    with grid near show "(\<exists>k::int. ?s = of_int k / 1000) \<and> \<bar>?s - ?d / 5\<bar> \<le> 1 / 2000"
      by simp
  qed
  have high: "15 < ?d \<longrightarrow> (\<exists>k::int. ?s = of_int k / 1000)
      \<and> \<bar>?s - max (1 / 2) (1 - (?d - 15) / 20)\<bar> \<le> 1 / 2000 \<and> 1 / 2 \<le> ?s"
  proof
    assume h: "15 < ?d"
    then have c: "third_curve ?d = max (1 / 2) (1 - (?d - 15) / 20)"
      by (simp add: third_curve_def)
    have "1 / 2 \<le> ?s"
      using py_round_mono [OF third_curve_floor [OF h], of up 3]
      by (simp add: s py_round_half)
    with grid near c show "(\<exists>k::int. ?s = of_int k / 1000)
      \<and> \<bar>?s - max (1 / 2) (1 - (?d - 15) / 20)\<bar> \<le> 1 / 2000 \<and> 1 / 2 \<le> ?s"
      by simp
  qed
  have up: "?d \<le> ?d' \<and> ?d' < 5 \<longrightarrow> ?s \<le> ?s'"
    unfolding s s' by (intro impI py_round_mono third_curve_low_mono) simp_all
  have down: "15 < ?d \<and> ?d \<le> ?d' \<longrightarrow> ?s' \<le> ?s"
    unfolding s s' by (intro impI py_round_mono third_curve_high_mono) simp_all
  from band low high up down show ?thesis by blast
qed

theorem third_score_by_density_witness:
  "calculate_third_score half_even 10 5000 = 1
   \<and> \<bar>calculate_third_score half_even 2 5000 - 2 / 5\<bar> \<le> 1 / 2000
   \<and> \<bar>calculate_third_score half_even 20 5000 - 3 / 4\<bar> \<le> 1 / 2000
   \<and> 1 / 2 \<le> calculate_third_score half_even 1000 5000
   \<and> calculate_third_score half_even 2 5000 \<le> calculate_third_score half_even 3 5000
   \<and> calculate_third_score half_even 1000 5000 \<le> calculate_third_score half_even 20 5000"
proof -
  have d: "mentions_per_1000 10 5000 = 10" "mentions_per_1000 2 5000 = 2"
    "mentions_per_1000 3 5000 = 3" "mentions_per_1000 20 5000 = 20"
    "mentions_per_1000 1000 5000 = 1000"
    by (simp_all add: mentions_per_1000_def)
  show ?thesis
    using third_score_by_density [of 5000 5000 10 half_even 10]
      third_score_by_density [of 5000 5000 2 half_even 3]
      third_score_by_density [of 5000 5000 20 half_even 1000]
      third_score_by_density [of 5000 5000 1000 half_even 1000]
    by (simp add: d)
qed

section \<open>The combined score\<close>

text \<open>
  C3. The combined score is half the readability score plus half the disclosure score,
  rounded to three decimals: a multiple of 0.001 at most 0.0005 away from the weighted
  sum. For sub-scores 0.8 and 1.0 it is 0.900.
\<close>

theorem p6_score_rounded:
  "(\<exists>k::int. calculate_p6_score up r t = of_int k / 1000)
   \<and> \<bar>calculate_p6_score up r t - (1 / 2 * r + 1 / 2 * t)\<bar> \<le> 1 / 2000
   \<and> calculate_p6_score up (8 / 10) 1 = 900 / 1000"
proof -
  have "\<bar>py_round up x 3 - x\<bar> \<le> 1 / 2000" for x
    using py_round_near [of up x 3] by simp
  moreover have "calculate_p6_score up (8 / 10) 1 = 900 / 1000"
    by (simp add: calculate_p6_score_def py_round_def round_nearest_def)
  ultimately show ?thesis
    using py_round_on_grid by (simp add: calculate_p6_score_def)
qed

section \<open>Absent metrics\<close>

text \<open>
  C10. For \<^verbatim>\<open>None\<close> and for the empty dictionary the readability score is 0.0, a
  returned value and no exception. The same value is returned for metrics of the worst
  readability: reading ease at most 0 and both grade-level estimates at least 20.
\<close>

theorem read_score_absent_is_zero:
  "calculate_read_score up None = Inr 0
   \<and> calculate_read_score up (Some []) = Inr 0
   \<and> (getitem d ''flesch_reading_ease'' = Inr e \<and> e \<le> 0
        \<and> getitem d ''flesch_kincaid_grade'' = Inr g \<and> 20 \<le> g
        \<and> getitem d ''text_standard'' = Inr s \<and> 20 \<le> s
       \<longrightarrow> calculate_read_score up (Some d) = Inr 0)"
proof -
  have "calculate_read_score up (Some d) = Inr 0"
    if "getitem d ''flesch_reading_ease'' = Inr e" "e \<le> 0"
      "getitem d ''flesch_kincaid_grade'' = Inr g" "20 \<le> g"
      "getitem d ''text_standard'' = Inr s" "20 \<le> s"
  proof -
    have "d \<noteq> []" using that(1) by (auto simp: getitem_def)
    then show ?thesis
      using that by (simp add: calculate_read_score_def py_round_0 min_def max_def)
  qed
  then show ?thesis
    by (simp add: calculate_read_score_def)
qed

theorem read_score_absent_is_zero_witness:
  "calculate_read_score half_even None = Inr 0
   \<and> calculate_read_score half_even (Some []) = Inr 0
   \<and> calculate_read_score half_even
        (Some [(''flesch_reading_ease'', - 10), (''flesch_kincaid_grade'', 25),
               (''text_standard'', 22)]) = Inr 0"
  using read_score_absent_is_zero
    [of half_even "[(''flesch_reading_ease'', - 10), (''flesch_kincaid_grade'', 25),
          (''text_standard'', 22)]" "- 10" 25 22]
  by (simp add: getitem_def)

section \<open>Midpoints\<close>

text \<open>
  At a midpoint the rule decides: half of 0.333 plus half of 0.518 is 0.4255, and one
  mention in 80000 characters gives a fifth of the density of 0.0125.
\<close>

lemma midpoints_follow_the_rule:
  "calculate_p6_score lower_neighbour (333 / 1000) (518 / 1000) = 425 / 1000"
  "calculate_p6_score half_even (333 / 1000) (518 / 1000) = 426 / 1000"
  "calculate_third_score upper_neighbour 1 80000 = 13 / 1000"
  "calculate_third_score half_even 1 80000 = 12 / 1000"
  by (simp_all add: calculate_p6_score_def eval_third lower_neighbour_def upper_neighbour_def
      half_even_def)

section \<open>Printing and raising\<close>

lemma then_do_say: "then_do (say evs) f = (fst (f ()), evs @ snd (f ()))"
  by (simp add: then_do_def say_def split: prod.splits)

lemma then_do_return: "then_do (return x) f = f x"
  by (simp add: then_do_def return_def split: prod.splits)

lemma then_do_lift_Inr: "then_do (lift (Inr x)) f = f x"
  by (simp add: then_do_def lift_def split: prod.splits)

lemma then_do_lift_Inl: "then_do (lift (Inl e)) f = (Inl e, [])"
  by (simp add: then_do_def lift_def)

lemma then_do_Inr: "then_do (Inr x, evs) f = (fst (f x), evs @ snd (f x))"
  by (simp add: then_do_def split: prod.splits)

lemma then_do_Inl: "then_do (Inl e, evs) f = (Inl e, evs)"
  by (simp add: then_do_def)

lemmas io_simps = then_do_say then_do_return then_do_lift_Inr then_do_lift_Inl then_do_Inr
  then_do_Inl return_def

section \<open>The metrics record\<close>

lemma call_Inr: "call r f = Inr y \<longleftrightarrow> (\<exists>v. r = Inr v \<and> f v = Inr y)"
  by (cases r) (simp_all add: call_def)

lemma readability_short: "length t < 100 \<Longrightarrow> analyze_readability ts (Some t) = Inr None"
  by (simp add: analyze_readability_def)

lemma readability_None:
  "analyze_readability ts text = Inr None
     \<longleftrightarrow> (case text of None \<Rightarrow> True | Some t \<Rightarrow> length t < 100)"
  by (cases "text") (auto simp: analyze_readability_def call_Inr)

lemma readability_shape:
  assumes "analyze_readability ts text = Inr (Some m)"
  shows "\<exists>t v1 v2 v3 v4 v5 v6 v7 v8 v9 v10. text = Some t \<and> 100 \<le> length t \<and>
     m = [(''flesch_reading_ease'', v1), (''flesch_kincaid_grade'', v2), (''gunning_fog'', v3),
          (''smog_index'', v4), (''coleman_liau_index'', v5),
          (''automated_readability_index'', v6), (''dale_chall_readability_score'', v7),
          (''difficult_words'', v8), (''linsear_write_formula'', v9), (''text_standard'', v10)]"
proof (cases "text")
  case None
  with assms show ?thesis by (simp add: analyze_readability_def)
next
  case (Some t)
  with assms have long: "\<not> (t = [] \<or> length t < 100)"
    by (auto simp: analyze_readability_def split: if_splits)
  with assms Some show ?thesis
    by (simp add: analyze_readability_def call_Inr) blast
qed

section \<open>One document\<close>

text \<open>
  A document whose text could not be fetched, or is shorter than 100 characters, yields
  no result and no exception. For any other document either the textstat library
  raises, and the exception leaves \<^verbatim>\<open>analyze_platform\<close>, or a result is returned whose
  fields are computed from the fetched text.
\<close>

lemma extract_outcome:
  "extract_text_from_url w url = (Inr (fetched w url), snd (extract_text_from_url w url))"
  by (simp add: fetched_def extract_text_from_url_def io_simps split: sum.splits)

lemma extract_ok:
  "http_get w url = Inr c \<Longrightarrow> soup_get_text w c = Inr s
    \<Longrightarrow> extract_text_from_url w url = (Inr (Some (collapse_whitespace s)), [])"
  by (simp add: extract_text_from_url_def io_simps)

lemma platform_rejects:
  assumes "fetched w url = Some t" "length t < 100"
  shows "analyze_platform w p url =
    (Inr None, [Say (CHR 0x0A # rule_line CHR ''=''), Analyzing p, UrlLine url, Say (rule_line CHR ''='')]
       @ snd (extract_text_from_url w url)
       @ (if t = [] then [FailedExtract p]
          else [Extracted (length (split t)) (length t), Say ''Failed to analyze readability'']))"
  unfolding analyze_platform_def
  apply (subst extract_outcome)
  using assms
  apply (simp add: io_simps readability_short Let_def)
  done

lemma platform_fetch_failed:
  assumes "fetched w url = None"
  shows "analyze_platform w p url =
    (Inr None, [Say (CHR 0x0A # rule_line CHR ''=''), Analyzing p, UrlLine url, Say (rule_line CHR ''='')]
       @ snd (extract_text_from_url w url) @ [FailedExtract p])"
  unfolding analyze_platform_def
  apply (subst extract_outcome)
  using assms
  apply (simp add: io_simps)
  done

lemma platform_raises:
  assumes "fetched w url = Some t" "analyze_readability (stat w) (Some t) = Inl e"
  shows "analyze_platform w p url =
    (Inl e, [Say (CHR 0x0A # rule_line CHR ''=''), Analyzing p, UrlLine url, Say (rule_line CHR ''='')]
       @ snd (extract_text_from_url w url) @ [Extracted (length (split t)) (length t)])"
proof -
  have ne: "t \<noteq> []"
    using assms(2) by (auto simp: analyze_readability_def)
  show ?thesis
    unfolding analyze_platform_def
    apply (subst extract_outcome)
    using assms ne
    apply (simp add: io_simps Let_def)
    done
qed

lemma platform_accepts:
  assumes "fetched w url = Some t" "analyze_readability (stat w) (Some t) = Inr (Some m)"
  shows "\<exists>r. fst (analyze_platform w p url) = Inr (Some r)
     \<and> Platform r = p \<and> URL r = url
     \<and> Word_Count r = length (split t) \<and> Character_Count r = length t
     \<and> Third_Party_Mentions r = analyze_third_party_mentions (Some t)
     \<and> calculate_read_score (ties w) (Some m) = Inr (READ_Score r)
     \<and> THIRD_Score r
         = calculate_third_score (ties w) (analyze_third_party_mentions (Some t)) (length t)
     \<and> P6_Score r = calculate_p6_score (ties w) (READ_Score r) (THIRD_Score r)"
proof -
  from readability_shape [OF assms(2)]
  obtain v1 v2 v3 v4 v5 v6 v7 v8 v9 v10 where long: "100 \<le> length t"
    and m: "m = [(''flesch_reading_ease'', v1), (''flesch_kincaid_grade'', v2),
          (''gunning_fog'', v3), (''smog_index'', v4), (''coleman_liau_index'', v5),
          (''automated_readability_index'', v6), (''dale_chall_readability_score'', v7),
          (''difficult_words'', v8), (''linsear_write_formula'', v9), (''text_standard'', v10)]"
    by auto
  have ne: "t \<noteq> []" using long by auto
  show ?thesis
    unfolding analyze_platform_def
    apply (subst extract_outcome)
    using assms(1) ne
    apply (simp add: assms(2) io_simps Let_def)
    apply (simp add: m getitem_def calculate_read_score_def io_simps)
    done
qed

lemma readability_outcomes:
  "isl (analyze_readability ts (Some t))
   \<or> analyze_readability ts (Some t) = Inr None \<and> length t < 100
   \<or> (\<exists>m. analyze_readability ts (Some t) = Inr (Some m)) \<and> 100 \<le> length t"
proof (cases "analyze_readability ts (Some t)")
  case (Inl e)
  then show ?thesis by simp
next
  case (Inr r)
  show ?thesis
  proof (cases r)
    case None
    with Inr readability_None [of ts "Some t"] show ?thesis by simp
  next
    case (Some m)
    with Inr readability_shape [of ts "Some t" m] show ?thesis by auto
  qed
qed

lemma platform_outcome: "isl (fst (analyze_platform w p url)) \<longleftrightarrow> stat_raises w (p, url)"
proof (cases "fetched w url")
  case None
  then show ?thesis
    by (simp add: platform_fetch_failed stat_raises_def)
next
  case (Some t)
  from readability_outcomes [of "stat w" t] show ?thesis
  proof (elim disjE conjE exE)
    assume "isl (analyze_readability (stat w) (Some t))"
    then obtain e where e: "analyze_readability (stat w) (Some t) = Inl e"
      by (cases "analyze_readability (stat w) (Some t)") simp_all
    with Some show ?thesis
      by (simp add: platform_raises stat_raises_def)
  next
    assume "analyze_readability (stat w) (Some t) = Inr None" "length t < 100"
    with Some show ?thesis
      by (simp add: platform_rejects stat_raises_def)
  next
    fix m assume m: "analyze_readability (stat w) (Some t) = Inr (Some m)"
    with Some platform_accepts [of w url t m p] show ?thesis
      by (auto simp: stat_raises_def)
  qed
qed

lemma produced_count:
  "length (produced w doc)
     = (if fetch_failed w doc \<or> too_short w doc \<or> stat_raises w doc then 0 else 1)"
proof (cases "fetched w (snd doc)")
  case None
  then show ?thesis
    by (simp add: produced_def fetch_failed_def platform_fetch_failed)
next
  case (Some t)
  from readability_outcomes [of "stat w" t] show ?thesis
  proof (elim disjE conjE exE)
    assume "isl (analyze_readability (stat w) (Some t))"
    then obtain e where e: "analyze_readability (stat w) (Some t) = Inl e"
      by (cases "analyze_readability (stat w) (Some t)") simp_all
    with Some show ?thesis
      by (simp add: produced_def platform_raises stat_raises_def)
  next
    assume "analyze_readability (stat w) (Some t) = Inr None" "length t < 100"
    with Some show ?thesis
      by (simp add: produced_def platform_rejects too_short_def)
  next
    fix m assume m: "analyze_readability (stat w) (Some t) = Inr (Some m)"
      and long: "100 \<le> length t"
    with Some platform_accepts [of w "snd doc" t m "fst doc"] show ?thesis
      by (auto simp: produced_def fetch_failed_def too_short_def stat_raises_def)
  qed
qed

lemma produced_fields:
  assumes "fetched w url = Some t" "100 \<le> length t" "\<not> stat_raises w (p, url)"
  shows "map Word_Count (produced w (p, url)) = [length (split t)]"
    and "map Character_Count (produced w (p, url)) = [length t]"
    and "map Third_Party_Mentions (produced w (p, url)) = [analyze_third_party_mentions (Some t)]"
    and "map THIRD_Score (produced w (p, url))
          = [calculate_third_score (ties w) (analyze_third_party_mentions (Some t)) (length t)]"
proof -
  from readability_outcomes [of "stat w" t] assms
  obtain m where m: "analyze_readability (stat w) (Some t) = Inr (Some m)"
    by (auto simp: stat_raises_def)
  from platform_accepts [OF assms(1) m, of p]
  show "map Word_Count (produced w (p, url)) = [length (split t)]"
    and "map Character_Count (produced w (p, url)) = [length t]"
    and "map Third_Party_Mentions (produced w (p, url)) = [analyze_third_party_mentions (Some t)]"
    and "map THIRD_Score (produced w (p, url))
          = [calculate_third_score (ties w) (analyze_third_party_mentions (Some t)) (length t)]"
    by (auto simp: produced_def)
qed

lemma produced_raises: "stat_raises w doc \<Longrightarrow> produced w doc = []"
  using produced_count [of w doc] by simp

lemma flat_stat_returns: "\<not> isl (analyze_readability flat_stat text)"
  by (cases "text") (simp_all add: analyze_readability_def call_def flat_stat_def)

lemma crashing_stat_raises:
  "100 \<le> length t \<Longrightarrow> analyze_readability crashing_stat (Some t)
     = Inl (ExternalError ''ZeroDivisionError: division by zero'')"
  by (auto simp: analyze_readability_def call_def crashing_stat_def)

section \<open>The sample texts\<close>

lemma count_str_Nil: "sub \<noteq> [] \<Longrightarrow> count_str [] sub = 0"
  by (subst count_str.simps) simp

lemma count_str_Cons:
  "sub \<noteq> [] \<Longrightarrow> count_str (c # cs) sub =
     (if startswith (c # cs) sub then 1 + count_str (drop (length sub) (c # cs)) sub
      else count_str cs sub)"
  by (subst count_str.simps) simp

lemma length_concat_replicate: "length (concat (replicate n xs)) = n * length xs"
  by (induction n) simp_all

lemma split_chunks:
  "split_from [] (concat (replicate n ''a '') @ s) = replicate n ''a'' @ split_from [] s"
  "split_from [] (concat (replicate n ''sell '') @ s) = replicate n ''sell'' @ split_from [] s"
  "split_from [] (concat (replicate n ''word '') @ s) = replicate n ''word'' @ split_from [] s"
  by (induction n) (simp_all add: is_space_def)

lemma collapse_chunks:
  "collapse_from b (concat (replicate n ''a '') @ s)
     = concat (replicate n ''a '') @ collapse_from (if n = 0 then b else True) s"
  "collapse_from b (concat (replicate n ''sell '') @ s)
     = concat (replicate n ''sell '') @ collapse_from (if n = 0 then b else True) s"
  "collapse_from b (concat (replicate n ''word '') @ s)
     = concat (replicate n ''word '') @ collapse_from (if n = 0 then b else True) s"
  by (induction n arbitrary: b) (simp_all add: is_space_def)

lemma lower_chunks:
  "lower (xs @ ys) = lower xs @ lower ys"
  "lower (concat (replicate n xs)) = concat (replicate n (lower xs))"
  "lower ''a '' = ''a ''" "lower ''sell '' = ''sell ''" "lower ''word '' = ''word ''"
  "lower ''quiet '' = ''quiet ''" "lower ''sell'' = ''sell''"
  by (simp_all add: lower_def lower_char_def map_concat)

lemma count_step:
  assumes "k \<in> set third_party_keywords"
  shows "count_str (''a '' @ s) k = count_str s k"
    and "count_str (''word '' @ s) k = count_str s k"
    and "count_str (''quiet '' @ s) k = count_str s k"
    and "count_str (''sell '' @ s) k = (if k = ''sell'' then 1 else 0) + count_str s k"
    and "count_str ''sell'' k = (if k = ''sell'' then 1 else 0)"
  using assms
  by (auto simp: third_party_keywords_def count_str_Cons count_str_Nil)

lemma count_chunks:
  assumes "k \<in> set third_party_keywords"
  shows "count_str (concat (replicate n ''a '') @ s) k = count_str s k"
    and "count_str (concat (replicate n ''word '') @ s) k = count_str s k"
    and "count_str (concat (replicate n ''sell '') @ s) k
          = (if k = ''sell'' then n else 0) + count_str s k"
  using count_step [OF assms]
  by (induction n) simp_all

lemma lower_Cons: "lower [] = []" "lower (c # cs) = lower_char c # lower cs"
  by (simp_all add: lower_def)

lemma thousand_words_facts:
  "length thousand_words = 2029"
  "length (split thousand_words) = 1000"
  "collapse_whitespace thousand_words = thousand_words"
  by (simp_all add: thousand_words_def length_concat_replicate split_def split_chunks
      collapse_whitespace_def collapse_chunks is_space_def)

lemma five_thousand_facts:
  "length five_thousand_chars = 5000"
  "length (split five_thousand_chars) = 1000"
  "collapse_whitespace five_thousand_chars = five_thousand_chars"
  by (simp_all add: five_thousand_chars_def length_concat_replicate split_def split_chunks
      collapse_whitespace_def collapse_chunks is_space_def)

lemma keyword_counts:
  assumes "k \<in> set third_party_keywords"
  shows "count_str (lower thousand_words) k = (if k = ''sell'' then 10 else 0)"
    and "count_str (lower five_thousand_chars) k = (if k = ''sell'' then 10 else 0)"
  using count_step [OF assms] count_chunks [OF assms]
  by (simp_all add: thousand_words_def five_thousand_chars_def lower_chunks lower_Cons
      lower_char_def)

lemma mentions_ten:
  "analyze_third_party_mentions (Some thousand_words) = 10"
  "analyze_third_party_mentions (Some five_thousand_chars) = 10"
proof -
  have ne: "thousand_words \<noteq> []" "five_thousand_chars \<noteq> []"
    by (simp_all add: thousand_words_def five_thousand_chars_def)
  have "map (count_str (lower thousand_words)) third_party_keywords
      = map (\<lambda>k. if k = ''sell'' then 10 else 0) third_party_keywords"
    and "map (count_str (lower five_thousand_chars)) third_party_keywords
      = map (\<lambda>k. if k = ''sell'' then 10 else 0) third_party_keywords"
    by (simp_all add: keyword_counts)
  then show "analyze_third_party_mentions (Some thousand_words) = 10"
    "analyze_third_party_mentions (Some five_thousand_chars) = 10"
    using ne by (simp_all add: analyze_third_party_mentions_def) (simp_all add: third_party_keywords_def)
qed

lemma fetched_worlds:
  "fetched dead_world url = None"
  "fetched blank_world url = Some []"
  "fetched short_world url = Some ''hi''"
  "fetched thousand_world url = Some thousand_words"
  "fetched five_thousand_world url = Some five_thousand_chars"
  "fetched crashing_world url = Some five_thousand_chars"
  by (simp_all add: fetched_def extract_text_from_url_def io_simps dead_world_def
      blank_world_def short_world_def thousand_world_def five_thousand_world_def
      crashing_world_def thousand_words_facts five_thousand_facts)
     (simp_all add: collapse_whitespace_def is_space_def)

lemma sample_worlds_return:
  "\<not> stat_raises dead_world doc"
  "\<not> stat_raises blank_world doc"
  "\<not> stat_raises short_world doc"
  "\<not> stat_raises thousand_world doc"
  "\<not> stat_raises five_thousand_world doc"
  by (simp_all add: stat_raises_def dead_world_def blank_world_def short_world_def
      thousand_world_def five_thousand_world_def flat_stat_returns split: option.splits)

lemma crashing_world_raises: "stat_raises crashing_world doc"
  using crashing_stat_raises [of five_thousand_chars]
  by (simp add: stat_raises_def fetched_worlds five_thousand_facts)
    (simp add: crashing_world_def)

section \<open>Disclosure density of a text of 1000 words\<close>

text \<open>
  C4, as the claim states it, fails. The density divides by the character length over
  5, not by the number of words: the text of 1000 words with ten keyword matches
  defined above has 2029 characters, so its density is 50000 / 2029 (about 24.6) and
  its disclosure score is 0.518, also as the field of the result that the pipeline
  builds for it.
\<close>

theorem thousand_words_counterexample:
  "length (split thousand_words) = 1000
   \<and> analyze_third_party_mentions (Some thousand_words) = 10
   \<and> length thousand_words = 2029
   \<and> mentions_per_1000 (analyze_third_party_mentions (Some thousand_words))
        (length thousand_words) = 50000 / 2029
   \<and> calculate_third_score half_even (analyze_third_party_mentions (Some thousand_words))
        (length thousand_words) = 518 / 1000
   \<and> map Word_Count (produced thousand_world (''Meta'', ''https://www.facebook.com/privacy/policy/'')) = [1000]
   \<and> map Third_Party_Mentions (produced thousand_world (''Meta'', ''https://www.facebook.com/privacy/policy/'')) = [10]
   \<and> map THIRD_Score (produced thousand_world (''Meta'', ''https://www.facebook.com/privacy/policy/'')) = [518 / 1000]"
proof -
  have s: "calculate_third_score half_even 10 2029 = 518 / 1000"
    "mentions_per_1000 10 2029 = 50000 / 2029"
    by (simp_all add: eval_third)
  have t: "ties thousand_world = half_even"
    by (simp add: thousand_world_def)
  show ?thesis
    using produced_fields
      [of thousand_world "''https://www.facebook.com/privacy/policy/''" thousand_words "''Meta''",
        OF fetched_worlds(4) _ sample_worlds_return(4)]
    by (simp add: thousand_words_facts mentions_ten s t)
qed

text \<open>
  C4, amended. For every fetched text with exactly ten keyword matches, the density
  is 50000 over the character length, whatever the number of words, and 10 for a
  length of exactly 5000 characters (1000 estimated words). Whenever the length is
  between 3334 and 10000 characters the disclosure score is 1.0, and it is the score in
  the result that the pipeline builds for the document, which it does unless the
  textstat library raises on the text.
\<close>

theorem third_score_from_character_length:
  assumes "fetched w url = Some t"
    and "analyze_third_party_mentions (Some t) = 10"
  shows "mentions_per_1000 (analyze_third_party_mentions (Some t)) (length t)
            = 50000 / of_nat (length t)
       \<and> (length t = 5000 \<longrightarrow>
            mentions_per_1000 (analyze_third_party_mentions (Some t)) (length t) = 10)
       \<and> (3334 \<le> length t \<and> length t \<le> 10000 \<longrightarrow>
            calculate_third_score (ties w) (analyze_third_party_mentions (Some t)) (length t) = 1
            \<and> map THIRD_Score (produced w (p, url))
                = (if stat_raises w (p, url) then [] else [1]))"
proof -
  let ?n = "length t"
  have "t \<noteq> []"
    using assms(2) by (auto simp: analyze_third_party_mentions_def)
  then have d: "mentions_per_1000 10 ?n = 50000 / of_nat ?n"
    by (simp add: mentions_per_1000_def)
  have five: "mentions_per_1000 10 5000 = 10"
    by (simp add: mentions_per_1000_def)
  have band: "calculate_third_score (ties w) 10 ?n = 1
      \<and> map THIRD_Score (produced w (p, url)) = (if stat_raises w (p, url) then [] else [1])"
    if b: "3334 \<le> ?n" "?n \<le> 10000"
  proof -
    have n: "3334 \<le> (of_nat ?n :: real)" "(of_nat ?n :: real) \<le> 10000"
      using b by simp_all
    have pos: "0 < (of_nat ?n :: real)"
      using n by linarith
    have "5 \<le> 50000 / (of_nat ?n :: real)" "50000 / (of_nat ?n :: real) \<le> 15"
      using n by (simp_all add: pos_le_divide_eq [OF pos] pos_divide_le_eq [OF pos])
    then have "third_curve (mentions_per_1000 10 ?n) = 1"
      by (simp add: d third_curve_def)
    then have one: "calculate_third_score (ties w) 10 ?n = 1"
      using b(1) by (auto simp: calculate_third_score_def py_round_1)
    have long: "100 \<le> ?n" using b(1) by simp
    show ?thesis
    proof (cases "stat_raises w (p, url)")
      case True
      then show ?thesis by (simp add: one produced_raises)
    next
      case False
      with produced_fields(4) [OF assms(1) long, of p] show ?thesis
        by (simp add: assms(2) one)
    qed
  qed
  from d five band show ?thesis
    by (simp add: assms(2))
qed

theorem third_score_from_character_length_witness:
  "length (split five_thousand_chars) = 1000
   \<and> length five_thousand_chars = 5000
   \<and> analyze_third_party_mentions (Some five_thousand_chars) = 10
   \<and> map THIRD_Score (produced five_thousand_world (''Meta'', ''https://www.facebook.com/privacy/policy/'')) = [1]
   \<and> mentions_per_1000 (analyze_third_party_mentions (Some five_thousand_chars))
        (length five_thousand_chars) = 10"
  using third_score_from_character_length
    [of five_thousand_world "''https://www.facebook.com/privacy/policy/''" five_thousand_chars
      "''Meta''", OF fetched_worlds(5) mentions_ten(2)]
  by (simp add: five_thousand_facts mentions_ten sample_worlds_return)

section \<open>The batch\<close>

text \<open>
  The loop gets through the documents up to the first one on which the textstat
  library raises, appends the entry of each one that yields a result, and returns
  normally exactly when the library raises on no document.
\<close>

lemma completed_all: "\<not> list_ex (stat_raises w) docs \<Longrightarrow> completed w docs = docs"
  by (simp add: completed_def list_ex_iff)

lemma analyze_loop_results:
  "snd (analyze_loop w ps rs) = rs @ concat (map (produced w) (completed w ps))"
proof (induction ps arbitrary: rs)
  case Nil
  show ?case by (simp add: completed_def)
next
  case (Cons doc ps)
  obtain p u where doc: "doc = (p, u)" by (cases doc)
  show ?case
  proof (cases "stat_raises w doc")
    case True
    then obtain e evs where "analyze_platform w p u = (Inl e, evs)"
      using platform_outcome [of w p u]
      by (cases "analyze_platform w p u") (auto simp: doc isl_def)
    with True show ?thesis
      by (simp add: doc completed_def)
  next
    case False
    then obtain r evs where ap: "analyze_platform w p u = (Inr r, evs)"
      using platform_outcome [of w p u]
      by (cases "analyze_platform w p u"; cases "fst (analyze_platform w p u)") (auto simp: doc)
    have pr: "produced w (p, u) = (case r of None \<Rightarrow> [] | Some x \<Rightarrow> [x])"
      by (simp add: produced_def ap split: option.splits)
    have c: "completed w ((p, u) # ps) = (p, u) # completed w ps"
      using False by (simp add: completed_def doc)
    show ?thesis
      using Cons.IH [of "case r of None \<Rightarrow> rs | Some x \<Rightarrow> rs @ [x]"]
      by (auto simp: c doc ap pr split: prod.splits option.splits)
  qed
qed

lemma analyze_loop_outcome:
  "isl (fst (fst (analyze_loop w ps rs))) \<longleftrightarrow> list_ex (stat_raises w) ps"
proof (induction ps arbitrary: rs)
  case Nil
  show ?case by (simp add: return_def)
next
  case (Cons doc ps)
  obtain p u where doc: "doc = (p, u)" by (cases doc)
  show ?case
  proof (cases "stat_raises w doc")
    case True
    then obtain e evs where "analyze_platform w p u = (Inl e, evs)"
      using platform_outcome [of w p u]
      by (cases "analyze_platform w p u") (auto simp: doc isl_def)
    with True show ?thesis
      by (simp add: doc)
  next
    case False
    then obtain r evs where ap: "analyze_platform w p u = (Inr r, evs)"
      using platform_outcome [of w p u]
      by (cases "analyze_platform w p u"; cases "fst (analyze_platform w p u)") (auto simp: doc)
    show ?thesis
      using Cons.IH [of "case r of None \<Rightarrow> rs | Some x \<Rightarrow> rs @ [x]"] False
      by (auto simp: doc ap split: prod.splits option.splits)
  qed
qed

lemma analyze_loop_first_raises:
  "fst (analyze_platform w p u) = Inl e \<Longrightarrow> fst (fst (analyze_loop w ((p, u) # ps) rs)) = Inl e"
  by (cases "analyze_platform w p u") simp

lemma analyze_all_first_raises:
  assumes "policies a = (p, u) # ps" "fst (analyze_platform w p u) = Inl e"
  shows "fst (fst (analyze_all w a)) = Inl e"
proof -
  have "fst (fst (analyze_loop w (policies a) (results a))) = Inl e"
    unfolding assms(1) using assms(2) by (rule analyze_loop_first_raises)
  then show ?thesis
    by (cases "analyze_loop w (policies a) (results a)") (auto simp: analyze_all_def)
qed

lemma analyze_all_results:
  "results (snd (analyze_all w a))
     = results a @ concat (map (produced w) (completed w (policies a)))"
  using analyze_loop_results [of w "policies a" "results a"]
  by (auto simp: analyze_all_def split: prod.splits)

lemma analyze_all_policies: "policies (snd (analyze_all w a)) = policies a"
  by (simp add: analyze_all_def split: prod.splits)

lemma analyze_all_raises:
  "isl (fst (fst (analyze_all w a))) \<longleftrightarrow> list_ex (stat_raises w) (policies a)"
  using analyze_loop_outcome [of w "policies a" "results a"]
  by (auto simp: analyze_all_def split: prod.splits sum.splits)

lemma analyze_all_returns:
  "\<not> isl (fst (fst (analyze_all w a)))
    \<Longrightarrow> fst (fst (analyze_all w a)) = Inr (results (snd (analyze_all w a)))"
  by (auto simp: analyze_all_def split: prod.splits sum.splits)

lemma count_partition:
  "\<not> list_ex (stat_raises w) ps \<Longrightarrow>
   length (concat (map (produced w) ps)) + length (filter (fetch_failed w) ps)
     + length (filter (too_short w) ps) = length ps"
proof (induction ps)
  case Nil
  show ?case by simp
next
  case (Cons doc ps)
  have "\<not> (fetch_failed w doc \<and> too_short w doc)"
    by (auto simp: fetch_failed_def too_short_def)
  with Cons show ?case
    by (auto simp: produced_count)
qed

lemma dead_world_results: "results (snd (analyze_all dead_world analyzer_init)) = []"
proof -
  have "produced dead_world doc = []" for doc
    using produced_count [of dead_world doc]
    by (simp add: fetch_failed_def fetched_worlds)
  then show ?thesis
    by (simp add: analyze_all_results) (simp add: analyzer_init_def)
qed

lemma five_thousand_world_results:
  "length (results (snd (analyze_all five_thousand_world analyzer_init))) = 4"
proof -
  have "length (produced five_thousand_world doc) = 1" for doc
    using produced_count [of five_thousand_world doc]
    by (simp add: fetch_failed_def too_short_def fetched_worlds five_thousand_facts
        sample_worlds_return)
  then have "length (concat (map (produced five_thousand_world) ps)) = length ps" for ps
    by (induction ps) simp_all
  moreover have "completed five_thousand_world ps = ps" for ps
    by (simp add: completed_all list_ex_iff sample_worlds_return)
  ultimately show ?thesis
    by (simp add: analyze_all_results) (simp add: analyzer_init_def)
qed

lemma sample_runs_return:
  "\<not> isl (fst (fst (analyze_all dead_world a)))"
  "\<not> isl (fst (fst (analyze_all short_world a)))"
  "\<not> isl (fst (fst (analyze_all five_thousand_world a)))"
  by (simp_all add: analyze_all_raises list_ex_iff sample_worlds_return)

text \<open>
  C6, as the claim states it, fails in both parts. A document that is fetched but whose
  text is shorter than 100 characters adds no entry either: where every page holds two
  letters, none of the four documents fails at the fetch stage and the list of results
  stays empty. And an exception of the textstat library is not caught: where the
  library raises, no document fails at the fetch stage and the exception escapes
  \<^verbatim>\<open>analyze_all\<close>.
\<close>

theorem short_pages_counterexample:
  "length (policies analyzer_init) = 4
   \<and> filter (fetch_failed short_world) (policies analyzer_init) = []
   \<and> results analyzer_init = []
   \<and> fst (fst (analyze_all short_world analyzer_init)) = Inr []
   \<and> filter (fetch_failed crashing_world) (policies analyzer_init) = []
   \<and> fst (fst (analyze_all crashing_world analyzer_init))
       = Inl (ExternalError ''ZeroDivisionError: division by zero'')"
proof -
  have "produced short_world doc = []" for doc
    using produced_count [of short_world doc]
    by (simp add: too_short_def fetched_worlds)
  then have short: "fst (fst (analyze_all short_world analyzer_init)) = Inr []"
    using analyze_all_returns [OF sample_runs_return(2), of analyzer_init]
    by (simp add: analyze_all_results) (simp add: analyzer_init_def)
  have "fst (analyze_platform crashing_world p u)
      = Inl (ExternalError ''ZeroDivisionError: division by zero'')" for p u
    using platform_raises [of crashing_world u five_thousand_chars _ p]
      crashing_stat_raises [of five_thousand_chars]
    by (simp add: fetched_worlds five_thousand_facts) (simp add: crashing_world_def)
  then have crash: "fst (fst (analyze_all crashing_world analyzer_init))
      = Inl (ExternalError ''ZeroDivisionError: division by zero'')"
    by (intro analyze_all_first_raises) (simp_all add: analyzer_init_def)
  show ?thesis
    by (simp add: short crash) (simp add: analyzer_init_def fetch_failed_def fetched_worlds)
qed

text \<open>
  C6, amended. For a batch of N documents of which M fail at the fetch stage and K
  yield a text shorter than 100 characters, and where the textstat library raises on
  none, \<^verbatim>\<open>analyze_all\<close> returns normally, with the list of results, and adds exactly
  N - M - K entries to the list it started with. Where the library raises on a
  document, the exception escapes \<^verbatim>\<open>analyze_all\<close>.
\<close>

theorem batch_entry_count:
  "(\<not> list_ex (stat_raises w) (policies a) \<longrightarrow>
      fst (fst (analyze_all w a)) = Inr (results (snd (analyze_all w a)))
      \<and> length (results (snd (analyze_all w a)))
          + length (filter (fetch_failed w) (policies a))
          + length (filter (too_short w) (policies a))
        = length (results a) + length (policies a))
   \<and> (list_ex (stat_raises w) (policies a) \<longrightarrow> isl (fst (fst (analyze_all w a))))"
proof -
  have "fst (fst (analyze_all w a)) = Inr (results (snd (analyze_all w a)))
      \<and> length (results (snd (analyze_all w a)))
          + length (filter (fetch_failed w) (policies a))
          + length (filter (too_short w) (policies a))
        = length (results a) + length (policies a)"
    if ok: "\<not> list_ex (stat_raises w) (policies a)"
    using count_partition [OF ok] analyze_all_returns [of w a] ok
    by (simp add: analyze_all_raises analyze_all_results completed_all)
  then show ?thesis
    by (simp add: analyze_all_raises)
qed

theorem batch_entry_count_witness:
  "\<not> list_ex (stat_raises five_thousand_world) (policies analyzer_init)
   \<and> fst (fst (analyze_all five_thousand_world analyzer_init))
       = Inr (results (snd (analyze_all five_thousand_world analyzer_init)))
   \<and> length (results (snd (analyze_all five_thousand_world analyzer_init))) = 4
   \<and> list_ex (stat_raises crashing_world) (policies analyzer_init)
   \<and> isl (fst (fst (analyze_all crashing_world analyzer_init)))"
proof -
  have ok: "\<not> list_ex (stat_raises five_thousand_world) (policies analyzer_init)"
    by (simp add: list_ex_iff sample_worlds_return)
  have bad: "list_ex (stat_raises crashing_world) (policies analyzer_init)"
    by (simp add: analyzer_init_def crashing_world_raises)
  show ?thesis
    using batch_entry_count [of five_thousand_world analyzer_init]
      batch_entry_count [of crashing_world analyzer_init] ok bad
    by (simp add: five_thousand_world_results)
qed

text \<open>
  C9. \<^verbatim>\<open>analyze_all\<close> appends to the list of results and never empties it: after a
  call the list is the one before the call followed by the entries of the documents
  that succeeded, in order; a second call on the same object appends the entries of
  its own run behind those of the first. The documents of a call are all the policies
  when the textstat library raises on none, and then the call returns the list.
\<close>

theorem results_accumulate:
  "results (snd (analyze_all w a))
     = results a @ concat (map (produced w) (completed w (policies a)))
   \<and> results (snd (analyze_all w' (snd (analyze_all w a))))
       = results a @ concat (map (produced w) (completed w (policies a)))
           @ concat (map (produced w') (completed w' (policies a)))
   \<and> (\<not> list_ex (stat_raises w) (policies a) \<longrightarrow>
        completed w (policies a) = policies a
        \<and> fst (fst (analyze_all w a)) = Inr (results (snd (analyze_all w a))))"
  using analyze_all_returns [of w a]
  by (simp add: analyze_all_results analyze_all_policies analyze_all_raises completed_all)

theorem results_accumulate_witness:
  "length (results (snd (analyze_all five_thousand_world analyzer_init))) = 4
   \<and> length (results (snd (analyze_all five_thousand_world
        (snd (analyze_all five_thousand_world analyzer_init))))) = 8
   \<and> results (snd (analyze_all five_thousand_world
        (snd (analyze_all five_thousand_world analyzer_init))))
      = results (snd (analyze_all five_thousand_world analyzer_init))
          @ results (snd (analyze_all five_thousand_world analyzer_init))
   \<and> fst (fst (analyze_all five_thousand_world analyzer_init))
      = Inr (results (snd (analyze_all five_thousand_world analyzer_init)))"
proof -
  have i: "results analyzer_init = []"
    by (simp add: analyzer_init_def)
  have ok: "\<not> list_ex (stat_raises five_thousand_world) (policies analyzer_init)"
    by (simp add: list_ex_iff sample_worlds_return)
  show ?thesis
    using results_accumulate [of five_thousand_world analyzer_init five_thousand_world]
      five_thousand_world_results ok
    by (simp add: i)
qed

section \<open>The whole run\<close>

lemma main_run:
  assumes "\<not> isl (fst (fst (analyze_all w analyzer_init)))"
  shows "fst (main w) =
     (Inr (),
      snd (fst (analyze_all w analyzer_init))
        @ (if results (snd (analyze_all w analyzer_init)) = []
           then [Say ''No results to report'', Say ''No results to save'']
           else [Report (results (snd (analyze_all w analyzer_init))),
                 WriteCsv ''privacy_policy_analysis.csv'' (results (snd (analyze_all w analyzer_init))),
                 SavedTo ''privacy_policy_analysis.csv'',
                 WriteJson ''privacy_policy_analysis.json'' (results (snd (analyze_all w analyzer_init))),
                 SavedTo ''privacy_policy_analysis.json''])
        @ closing_lines)"
proof -
  obtain evs a where aa: "analyze_all w analyzer_init = ((Inr (results a), evs), a)"
    using analyze_all_returns [OF assms]
    by (cases "analyze_all w analyzer_init") (auto simp: prod_eq_iff)
  have rep: "replace_str ''privacy_policy_analysis.csv'' ''.csv'' ''.json''
      = ''privacy_policy_analysis.json''"
    by (simp add: replace_str.simps)
  show ?thesis
    by (simp add: main_def aa io_simps generate_report_def save_results_def say_def
        closing_lines_def rep Let_def)
qed

lemma main_state: "snd (main w) = snd (analyze_all w analyzer_init)"
  by (simp add: main_def split: prod.splits)

text \<open>
  C7, as the claim states it, fails. When every request times out no document
  succeeds, and \<^verbatim>\<open>main\<close> still returns normally, as it does in a run where all four
  documents succeed: both runs end with the same line, and the lines announcing
  completion are printed.
\<close>

theorem all_failed_run_completes:
  "results (snd (main dead_world)) = []
   \<and> fst (fst (main dead_world)) = Inr ()
   \<and> length (results (snd (main five_thousand_world))) = 4
   \<and> fst (fst (main five_thousand_world)) = fst (fst (main dead_world))
   \<and> last (snd (fst (main dead_world))) = last (snd (fst (main five_thousand_world)))
   \<and> Say ''ANALYSIS COMPLETE'' \<in> set (snd (fst (main dead_world)))"
  by (simp add: main_run sample_runs_return main_state dead_world_results
      five_thousand_world_results)
    (simp add: closing_lines_def)

text \<open>
  C7, amended. Whenever the analysis of the batch returns, \<^verbatim>\<open>main\<close> returns normally.
  When no document succeeded, it prints, after the output of the analysis, that there
  are no results to report and none to save, writes no file, and then prints the
  closing lines.
\<close>

theorem main_without_results:
  "\<not> isl (fst (fst (analyze_all w analyzer_init))) \<longrightarrow>
     fst (fst (main w)) = Inr ()
     \<and> (results (snd (main w)) = []
        \<longrightarrow> snd (fst (main w))
            = snd (fst (analyze_all w analyzer_init))
                @ [Say ''No results to report'', Say ''No results to save''] @ closing_lines)"
  by (simp add: main_run main_state)

theorem main_without_results_witness:
  "\<not> isl (fst (fst (analyze_all dead_world analyzer_init)))
   \<and> results (snd (main dead_world)) = []
   \<and> fst (fst (main dead_world)) = Inr ()
   \<and> snd (fst (main dead_world))
       = snd (fst (analyze_all dead_world analyzer_init))
           @ [Say ''No results to report'', Say ''No results to save''] @ closing_lines"
  using main_without_results [of dead_world]
  by (simp add: main_state dead_world_results sample_runs_return)

section \<open>Empty and short texts\<close>

text \<open>
  C5, as the claim states it, fails: no error is raised for an empty or short text.
  For a blank page and for a page of two letters \<^verbatim>\<open>extract_text_from_url\<close> returns
  the text as an ordinary value and prints nothing.
\<close>

theorem short_text_returned_silently:
  "extract_text_from_url blank_world ''https://proton.me/legal/privacy'' = (Inr (Some []), [])
   \<and> extract_text_from_url short_world ''https://proton.me/legal/privacy''
        = (Inr (Some ''hi''), [])"
  by (simp add: extract_text_from_url_def blank_world_def short_world_def io_simps
      collapse_whitespace_def is_space_def)

text \<open>
  C5, amended. Whenever fetching and parsing succeed, \<^verbatim>\<open>extract_text_from_url\<close>
  returns the text with its white space collapsed, whatever its length. A text of
  fewer than 100 characters is rejected afterwards by \<^verbatim>\<open>analyze_platform\<close>, which
  returns no result and raises nothing; its last line of output reports the failed
  extraction for an empty text and the failed readability analysis otherwise, and the
  document contributes no entry.
\<close>

theorem short_text_is_skipped:
  "(http_get w url = Inr c \<and> soup_get_text w c = Inr s
      \<longrightarrow> extract_text_from_url w url = (Inr (Some (collapse_whitespace s)), []))
   \<and> (fetched w url = Some t \<and> length t < 100
      \<longrightarrow> fst (analyze_platform w p url) = Inr None
        \<and> last (snd (analyze_platform w p url))
            = (if t = [] then FailedExtract p else Say ''Failed to analyze readability'')
        \<and> produced w (p, url) = [])"
  by (auto simp: extract_ok platform_rejects produced_def)

theorem short_text_is_skipped_witness:
  "extract_text_from_url blank_world ''https://proton.me/legal/privacy'' = (Inr (Some []), [])
   \<and> fst (analyze_platform blank_world ''Proton'' ''https://proton.me/legal/privacy'') = Inr None
   \<and> last (snd (analyze_platform blank_world ''Proton'' ''https://proton.me/legal/privacy''))
        = FailedExtract ''Proton''
   \<and> fst (analyze_platform short_world ''Proton'' ''https://proton.me/legal/privacy'') = Inr None
   \<and> last (snd (analyze_platform short_world ''Proton'' ''https://proton.me/legal/privacy''))
        = Say ''Failed to analyze readability''"
proof -
  have c: "collapse_whitespace [] = []"
    by (simp add: collapse_whitespace_def)
  show ?thesis
    using short_text_is_skipped [of blank_world "''https://proton.me/legal/privacy''" "''   ''"
        "[]" "[]" "''Proton''"]
      short_text_is_skipped [of short_world "''https://proton.me/legal/privacy''" "''<p>hi</p>''"
        "''hi''" "''hi''" "''Proton''"]
    by (simp add: fetched_worlds c) (simp add: blank_world_def)
qed

section \<open>What \<^verbatim>\<open>analyze_readability\<close> returns\<close>

text \<open>
  C8. \<^verbatim>\<open>analyze_readability\<close> returns no record exactly when the text is absent or
  has fewer than 100 characters; a record it returns has all ten keys, each with a
  value.
\<close>

theorem readability_all_or_nothing:
  "(analyze_readability ts text = Inr None
      \<longleftrightarrow> (case text of None \<Rightarrow> True | Some t \<Rightarrow> length t < 100))
   \<and> (analyze_readability ts text = Inr (Some m)
      \<longrightarrow> map fst m = metric_names \<and> (\<forall>k \<in> set metric_names. \<exists>v. getitem m k = Inr v))"
proof -
  have "map fst m = metric_names \<and> (\<forall>k \<in> set metric_names. \<exists>v. getitem m k = Inr v)"
    if h: "analyze_readability ts text = Inr (Some m)"
  proof -
    have keys: "map fst m = metric_names"
      using readability_shape [OF h] by (auto simp: metric_names_def)
    have "\<exists>v. getitem m k = Inr v" if "k \<in> set (map fst m)" for k
    proof -
      from that obtain v where "map_of m k = Some v"
        by (metis map_of_eq_None_iff not_Some_eq set_map)
      then show ?thesis by (simp add: getitem_def)
    qed
    with keys show ?thesis by simp
  qed
  then show ?thesis
    by (simp add: readability_None)
qed

theorem readability_all_or_nothing_witness:
  "analyze_readability flat_stat None = Inr None
   \<and> analyze_readability flat_stat (Some []) = Inr None
   \<and> analyze_readability flat_stat (Some (replicate 99 CHR ''x'')) = Inr None
   \<and> map fst (the (projr (analyze_readability flat_stat (Some (replicate 100 CHR ''x'')))))
       = metric_names"
proof -
  obtain m where m: "analyze_readability flat_stat (Some (replicate 100 CHR ''x'')) = Inr (Some m)"
    using readability_outcomes [of flat_stat "replicate 100 CHR ''x''"]
      flat_stat_returns [of "Some (replicate 100 CHR ''x'')"]
    by auto
  show ?thesis
    using readability_all_or_nothing [of flat_stat None]
      readability_all_or_nothing [of flat_stat "Some []"]
      readability_all_or_nothing [of flat_stat "Some (replicate 99 CHR ''x'')"]
      readability_all_or_nothing [of flat_stat "Some (replicate 100 CHR ''x'')" m]
    by (simp add: m)
qed

end
